theory Spec2Isabelle
  imports Main
begin

section \<open>Errors\<close>

text \<open>
  A rejected promise or a thrown exception is a value. \<open>TypeError\<close> is what the
  JavaScript runtime throws when a property of \<open>undefined\<close> or \<open>null\<close> is read;
  \<open>Failure\<close> is a rejection of a collaborator (transport, authenticator, store) carrying
  its message; \<open>ErrorOf e\<close> is \<^verbatim>\<open>new Error(e)\<close>, the wrapper the source throws from
  its \<^verbatim>\<open>catch\<close> blocks.
\<close>

datatype error = TypeError | Failure string | ErrorOf error

section \<open>Channel preferences (configureChannelPrefs)\<close>

text \<open>
  \<^verbatim>\<open>JiraPreference\<close>: the channel and one flag per notification category and per issue
  type. A flag of a stored record may be absent (\<^verbatim>\<open>undefined\<close>), which is \<open>None\<close>.
\<close>

record JiraPreference =
  channel :: string
  issueComment :: "bool option"
  issueDeleted :: "bool option"
  issueCreated :: "bool option"
  issueState :: "bool option"
  issueStatus :: "bool option"
  bug :: "bool option"
  task :: "bool option"
  epic :: "bool option"
  story :: "bool option"
  subtask :: "bool option"

text \<open>The local helper \<^verbatim>\<open>a\<close> of \<^verbatim>\<open>mungeJiraPrefs\<close>:
  \<^verbatim>\<open>b !== undefined ? b : true\<close>.\<close>

definition a_default :: "bool option \<Rightarrow> bool option" where
  "a_default b = (if b \<noteq> None then b else Some True)"

definition mungeJiraPrefs :: "JiraPreference \<Rightarrow> JiraPreference" where
  "mungeJiraPrefs prefs =
     \<lparr> channel = channel prefs,
       issueComment = a_default (issueComment prefs),
       issueDeleted = a_default (issueDeleted prefs),
       issueCreated = a_default (issueCreated prefs),
       issueState = a_default (issueState prefs),
       issueStatus = a_default (issueStatus prefs),
       bug = a_default (bug prefs),
       task = a_default (task prefs),
       epic = a_default (epic prefs),
       story = a_default (story prefs),
       subtask = a_default (subtask prefs) \<rparr>"

text \<open>
  \<^verbatim>\<open>queryJiraChannelPrefs\<close>. The first argument is what
  \<^verbatim>\<open>cachedJiraPreferenceLookup(ctx, channel)\<close> resolved to: \<open>None\<close> when there is no
  record (a falsy result), \<open>Some r\<close> for a stored record.
\<close>

definition queryJiraChannelPrefs :: "JiraPreference option \<Rightarrow> string \<Rightarrow> JiraPreference" where
  "queryJiraChannelPrefs lookupResult chan =
     (case lookupResult of
        Some r \<Rightarrow> mungeJiraPrefs r
      | None \<Rightarrow>
          \<lparr> channel = chan,
            issueComment = Some True,
            issueDeleted = Some True,
            issueCreated = Some True,
            issueState = Some False,
            issueStatus = Some False,
            bug = Some True,
            task = Some True,
            epic = Some True,
            story = Some True,
            subtask = Some True \<rparr>)"

section \<open>The detail fetcher (jiraDataLookup)\<close>

text \<open>
  The cache behind \<^verbatim>\<open>configurationValue("sdm.jiraCache")\<close>: each key holds a value
  and the time at which it expires.
\<close>

type_synonym 'v cache_store = "string \<rightharpoonup> ('v \<times> nat)"

text \<open>Modelled from the spec: the \<^verbatim>\<open>JiraCache\<close> implementation (section 4.1) is not
  among the sources. A read of an absent or expired key is a miss.\<close>

definition cache_get :: "'v cache_store \<Rightarrow> nat \<Rightarrow> string \<Rightarrow> 'v option" where
  "cache_get store now k =
     (case store k of
        None \<Rightarrow> None
      | Some (v, expiry) \<Rightarrow> if now < expiry then Some v else None)"

text \<open>Modelled from the spec: the \<^verbatim>\<open>JiraCache\<close> implementation (section 4.1) is not
  among the sources. A write overwrites the key and restarts its time to live.\<close>

definition cache_set :: "'v cache_store \<Rightarrow> nat \<Rightarrow> string \<Rightarrow> 'v \<Rightarrow> nat \<Rightarrow> 'v cache_store" where
  "cache_set store now k v ttl = store(k \<mapsto> (v, now + ttl))"

text \<open>
  The state \<^verbatim>\<open>getJiraDetails\<close> works on: the cache, the clock, and the log of the HTTP
  exchanges performed so far (the URL of each call of \<^verbatim>\<open>httpClient.exchange\<close>).
\<close>

record 'v JiraWorld =
  jiraCache :: "'v cache_store"
  clock :: nat
  exchanges :: "string list"

text \<open>
  The collaborators of one call: the value of \<^verbatim>\<open>sdm.jira.useCache\<close> (false when
  unset), what the authenticator \<^verbatim>\<open>getJiraAuth(ctx)\<close> resolves to, and what the
  transport answers to a GET of a URL with that header.
\<close>

record 'v JiraHttp =
  useCacheConfig :: bool
  getJiraAuth :: "error + string"
  exchange :: "string \<Rightarrow> string \<Rightarrow> error + 'v"

definition getJiraDetails ::
  "'v JiraHttp \<Rightarrow> 'v JiraWorld \<Rightarrow> string \<Rightarrow> bool \<Rightarrow> nat \<Rightarrow> (error + 'v) \<times> 'v JiraWorld" where
  "getJiraDetails env w jiraSelfUrl cache ttl =
     (let useCache = useCacheConfig env \<and> cache;
          cacheResult = cache_get (jiraCache w) (clock w) jiraSelfUrl
      in case (useCache, cacheResult) of
           (True, Some v) \<Rightarrow> (Inr v, w)
         | _ \<Rightarrow>
            (case getJiraAuth env of
               Inl e \<Rightarrow> (Inl (ErrorOf e), w)
             | Inr authorization \<Rightarrow>
                 (let w1 = w\<lparr>exchanges := exchanges w @ [jiraSelfUrl]\<rparr>
                  in case exchange env jiraSelfUrl authorization of
                       Inl e \<Rightarrow> (Inl (ErrorOf e), w1)
                     | Inr body \<Rightarrow>
                         (Inr body,
                          if cache
                          then w1\<lparr>jiraCache := cache_set (jiraCache w1) (clock w1) jiraSelfUrl body ttl\<rparr>
                          else w1))))"

section \<open>Issue events and tracker resources\<close>

text \<open>\<^verbatim>\<open>event.issue\<close>: the issue reference of the webhook payload (id, key, self).\<close>

record JiraIssueRef =
  issue_id :: string
  issue_key :: string
  issue_self :: string

text \<open>One item of \<^verbatim>\<open>event.changelog.items\<close>; \<open>toString_item\<close> is the item's
  \<^verbatim>\<open>toString\<close> property (the display name of the new value), \<open>None\<close> when null.\<close>

record ChangelogItem =
  field :: string
  toString_item :: "string option"

text \<open>
  \<^verbatim>\<open>OnJiraIssueEvent.JiraIssue\<close>. \<open>None\<close> is \<^verbatim>\<open>null\<close>: for the sub-classification,
  the comment and the changelog (whose items are kept).
\<close>

record JiraIssueEvent =
  webhookEvent :: string
  issue_event_type_name :: "string option"
  issue :: JiraIssueRef
  comment :: "string option"
  changelog :: "ChangelogItem list option"
  timestamp :: string

text \<open>\<^verbatim>\<open>jiraTypes.Issue\<close>, the fields the handlers read: \<^verbatim>\<open>self\<close>,
  \<^verbatim>\<open>fields.summary\<close>, \<^verbatim>\<open>fields.description\<close> (null when the issue has none) and
  \<^verbatim>\<open>fields.issuetype.name\<close>.\<close>

record Issue =
  self_url :: string
  fields_summary :: string
  fields_description :: "string option"
  fields_issuetype_name :: string

record Transition =
  transition_id :: string
  transition_name :: string

text \<open>\<^verbatim>\<open>jiraTypes.JiraIssueTransitions\<close>; \<open>transitions = None\<close> when the fetched
  object has no \<^verbatim>\<open>transitions\<close> property.\<close>

record JiraIssueTransitions =
  transitions :: "Transition list option"

record JiraConfig =
  url :: string

datatype post_mode = always | update_only

record MessageOptions =
  msg_id :: string
  post :: post_mode

text \<open>What \<^verbatim>\<open>getJiraIssueDescription\<close> returns. Each of the three variables is
  declared without a value, so it is \<^verbatim>\<open>undefined\<close> (\<open>None\<close>) on a path that never
  assigns it.\<close>

record IssueDescription =
  description :: "string option"
  issueTransitions :: "JiraIssueTransitions option"
  msgOptions :: "MessageOptions option"

record MenuSpecification =
  menu_text :: string
  menu_options :: "(string \<times> string) list"

datatype Action =
    buttonForCommand string string string
  | menuForCommand MenuSpecification string string string

text \<open>A Slack attachment: the leading one built from the description, one prepared by a
  message helper, or the footer with its actions.\<close>

datatype Attachment =
    Pretext "string option"
  | Prepared string
  | Footer string "Action list"

record Dispatch =
  finalMessage :: "Attachment list"
  addressed :: "string list"
  withOptions :: "MessageOptions option"

text \<open>
  The outcome of one routing pass that did not throw: the channels collected per
  category, in the order collected (\<open>channels\<close> of the source is their concatenation),
  the call of \<^verbatim>\<open>ctx.messageClient.addressChannels\<close> if one was made, and the debug
  lines logged.
\<close>

record RouteResult =
  contributions :: "(string \<times> JiraPreference list) list"
  sent :: "Dispatch option"
  logged :: "string list"

text \<open>
  The collaborators of \<^verbatim>\<open>routeEvent\<close> whose code is not part of the router: each
  field is what the awaited call resolves to (\<open>Inl\<close> when it rejects).
  \<open>getIssueDetail\<close> and \<open>getTransitions\<close> are the two typed uses of
  \<^verbatim>\<open>getJiraDetails\<close> (URL, cache flag, time to live).
\<close>

record Collaborators =
  buildSelfUrl :: "string \<Rightarrow> string"
  getIssueDetail :: "string \<Rightarrow> bool \<Rightarrow> nat \<Rightarrow> error + Issue"
  getTransitions :: "string \<Rightarrow> bool \<Rightarrow> nat \<Rightarrow> error + JiraIssueTransitions"
  slack_url :: "string \<Rightarrow> string \<Rightarrow> string"
  jiraDetermineNotifyChannels :: "JiraIssueEvent \<Rightarrow> error + JiraPreference list"
  jiraParseChannels :: "JiraPreference list \<Rightarrow> JiraIssueEvent \<Rightarrow> string \<Rightarrow> error + JiraPreference list"
  prepareNewIssueMessage :: "string \<Rightarrow> Issue \<Rightarrow> error + Attachment list"
  prepareIssueDeletedMessage :: "JiraIssueEvent \<Rightarrow> error + Attachment list"
  prepareStateChangeMessage :: "JiraIssueEvent \<Rightarrow> error + Attachment list"
  prepareIssueCommentedMessage :: "JiraIssueEvent \<Rightarrow> Issue \<Rightarrow> error + Attachment list"
  buildJiraFooter :: "Issue \<Rightarrow> string"

text \<open>\<^verbatim>\<open>await\<close>: a rejection propagates, a resolved value is passed on.\<close>

definition await :: "error + 'a \<Rightarrow> ('a \<Rightarrow> error + 'b) \<Rightarrow> error + 'b" where
  "await r k = (case r of Inl e \<Rightarrow> Inl e | Inr x \<Rightarrow> k x)"

section \<open>The message composer (routeEvent.ts)\<close>

definition post_of :: "bool \<Rightarrow> post_mode" where
  "post_of newEvent = (if newEvent then always else update_only)"

text \<open>The \<^verbatim>\<open>switch\<close> over \<^verbatim>\<open>event.webhookEvent\<close> has no default case.\<close>

definition getJiraIssueDescription ::
  "Collaborators \<Rightarrow> Issue \<Rightarrow> JiraIssueEvent \<Rightarrow> bool \<Rightarrow> JiraConfig \<Rightarrow> error + IssueDescription" where
  "getJiraIssueDescription co issueDetail event newEvent jiraConfig =
     (if webhookEvent event = ''comment_created'' \<or> webhookEvent event = ''jira:issue_updated'' then
        await (getTransitions co (buildSelfUrl co (issue_id (issue event)) @ ''/transitions'') True 5)
          (\<lambda>tr. Inr
            \<lparr> description = Some (''JIRA Issue updated '' @
                 slack_url co (url jiraConfig @ ''/browse/'' @ issue_key (issue event))
                   (issue_key (issue event) @ '': '' @ fields_summary issueDetail)),
              issueTransitions = Some tr,
              msgOptions = Some
                \<lparr> msg_id = ''jira/issue_updated/'' @ issue_key (issue event) @ ''/'' @ timestamp event,
                  post = post_of newEvent \<rparr> \<rparr>)
      else if webhookEvent event = ''jira:issue_created'' then
        await (getTransitions co (buildSelfUrl co (issue_id (issue event)) @ ''/transitions'') True 5)
          (\<lambda>tr. Inr
            \<lparr> description = Some (''JIRA Issue created '' @
                 slack_url co (url jiraConfig @ ''/browse/'' @ issue_key (issue event))
                   (issue_key (issue event) @ '': '' @ fields_summary issueDetail)),
              issueTransitions = Some tr,
              msgOptions = Some
                \<lparr> msg_id = ''jira/issue_created/'' @ issue_key (issue event) @ ''/'' @ timestamp event,
                  post = post_of newEvent \<rparr> \<rparr>)
      else if webhookEvent event = ''jira:issue_deleted'' then
        Inr
          \<lparr> description = Some
               (slack_url co (url jiraConfig @ ''/browse/'' @ issue_key (issue event))
                  (''JIRA Issue '' @ issue_key (issue event) @ '' deleted'')),
            issueTransitions = None,
            msgOptions = Some
              \<lparr> msg_id = ''jira/issue_deleted/'' @ issue_key (issue event) @ ''/'' @ timestamp event,
                post = post_of newEvent \<rparr> \<rparr>
      else Inr \<lparr> description = None, issueTransitions = None, msgOptions = None \<rparr>)"

section \<open>The router (routeEvent.ts)\<close>

text \<open>One call of \<^verbatim>\<open>jiraParseChannels(newChannels, event, check)\<close>, remembered under
  the category it was made for.\<close>

definition parseFor ::
  "Collaborators \<Rightarrow> JiraPreference list \<Rightarrow> JiraIssueEvent \<Rightarrow> string \<Rightarrow>
     error + (string \<times> JiraPreference list) list" where
  "parseFor co newChannels event check =
     await (jiraParseChannels co newChannels event check) (\<lambda>cs. Inr [(check, cs)])"

text \<open>
  Lines 74 to 101: the four independent tests that push onto \<^verbatim>\<open>channels\<close>. The
  regular expression \<^verbatim>\<open>/^(issue_generic|issue_updated|issue_assigned)$/\<close> matches
  exactly the three names.
\<close>

definition collectChannels ::
  "Collaborators \<Rightarrow> JiraIssueEvent \<Rightarrow> JiraPreference list \<Rightarrow>
     error + (string \<times> JiraPreference list) list" where
  "collectChannels co event newChannels =
     await (if comment event \<noteq> None
            then parseFor co newChannels event ''issueComment'' else Inr [])
       (\<lambda>c1.
     await (case issue_event_type_name event of
              None \<Rightarrow> Inr []
            | Some t \<Rightarrow>
                if t = ''issue_generic'' \<or> t = ''issue_updated'' \<or> t = ''issue_assigned'' then
                  (if t = ''issue_generic'' then parseFor co newChannels event ''issueStatus''
                   else if t = ''issue_assigned'' \<or> t = ''issue_updated''
                   then parseFor co newChannels event ''issueState''
                   else Inr [])
                else Inr [])
       (\<lambda>c2.
     await (if issue_event_type_name event = Some ''issue_created''
            then parseFor co newChannels event ''issueCreated'' else Inr [])
       (\<lambda>c3.
     Inr (c1 @ c2 @ c3 @
          (if webhookEvent event = ''jira:issue_deleted''
           then [(''issueDeleted'', filter (\<lambda>c. issueDeleted c = Some True) newChannels)]
           else [])))))"

text \<open>Lines 103 to 107: the four message helpers, in order.\<close>

definition prepareMessage ::
  "Collaborators \<Rightarrow> JiraIssueEvent \<Rightarrow> Issue \<Rightarrow> error + Attachment list" where
  "prepareMessage co event issueDetail =
     await (prepareNewIssueMessage co (webhookEvent event) issueDetail) (\<lambda>m1.
     await (prepareIssueDeletedMessage co event) (\<lambda>m2.
     await (prepareStateChangeMessage co event) (\<lambda>m3.
     await (prepareIssueCommentedMessage co event issueDetail) (\<lambda>m4.
     Inr (m1 @ m2 @ m3 @ m4)))))"

text \<open>
  Lines 110 to 114: \<^verbatim>\<open>issueTransitions.hasOwnProperty("transitions")\<close> is evaluated
  whatever the event is, and reads a property of \<^verbatim>\<open>undefined\<close> when the description
  step assigned no transitions.
\<close>

definition transitionOptions :: "JiraIssueTransitions option \<Rightarrow> error + MenuSpecification" where
  "transitionOptions it =
     (case it of
        None \<Rightarrow> Inl TypeError
      | Some tr \<Rightarrow>
          Inr \<lparr> menu_text = ''Set Status'',
                menu_options =
                  (case transitions tr of
                     Some ts \<Rightarrow>
                       if ts \<noteq> [] then map (\<lambda>t. (transition_name t, transition_id t)) ts else []
                   | None \<Rightarrow> []) \<rparr>)"

text \<open>lodash's \<^verbatim>\<open>_.uniqBy(array, iteratee)\<close>: the first element of each key is kept,
  in order; \<open>seen\<close> holds the keys already taken.\<close>

fun uniqBy_seen :: "('a \<Rightarrow> 'k) \<Rightarrow> 'k list \<Rightarrow> 'a list \<Rightarrow> 'a list" where
  "uniqBy_seen f seen [] = []"
| "uniqBy_seen f seen (x # xs) =
     (if f x \<in> set seen then uniqBy_seen f seen xs
      else x # uniqBy_seen f (f x # seen) xs)"

definition uniqBy :: "'a list \<Rightarrow> ('a \<Rightarrow> 'k) \<Rightarrow> 'a list" where
  "uniqBy xs f = uniqBy_seen f [] xs"

definition routeEvent ::
  "Collaborators \<Rightarrow> JiraConfig \<Rightarrow> JiraIssueEvent \<Rightarrow> bool \<Rightarrow> error + RouteResult" where
  "routeEvent co jiraConfig event newEvent =
     await (getIssueDetail co (buildSelfUrl co (issue_id (issue event)) @ ''?expand=changelog'') True 30)
       (\<lambda>issueDetail.
     await (getJiraIssueDescription co issueDetail event newEvent jiraConfig) (\<lambda>d.
     await (jiraDetermineNotifyChannels co event) (\<lambda>newChannels.
     await (collectChannels co event newChannels) (\<lambda>contribs.
     await (prepareMessage co event issueDetail) (\<lambda>message.
     await (transitionOptions (issueTransitions d)) (\<lambda>transitionOpts.
       let channels = concat (map snd contribs) in
       if message \<noteq> [] \<and> channels \<noteq> [] then
         (let notifyChannels = uniqBy channels channel in
          case issueTransitions d of
            None \<Rightarrow> Inl TypeError
          | Some tr \<Rightarrow>
              (case transitions tr of
                 None \<Rightarrow> Inl TypeError
               | Some ts \<Rightarrow>
                   Inr \<lparr> contributions = contribs,
                         sent =
                           (if notifyChannels \<noteq> [] then
                              Some \<lparr> finalMessage =
                                       [Pretext (description d)] @ message @
                                       [Footer (buildJiraFooter co issueDetail)
                                          ((if webhookEvent event \<noteq> ''jira:issue_deleted''
                                            then [buttonForCommand ''Comment'' ''JiraCommentOnIssue''
                                                    (issue_id (issue event))]
                                            else []) @
                                           (if ts \<noteq> []
                                            then [menuForCommand transitionOpts ''SetIssueStatus''
                                                    ''transitionId'' (self_url issueDetail @ ''/transitions'')]
                                            else []))],
                                     addressed = map channel notifyChannels,
                                     withOptions = msgOptions d \<rparr>
                            else None),
                         logged = [] \<rparr>))
       else
         Inr \<lparr> contributions = contribs,
               sent = None,
               logged =
                 (if \<not> message \<noteq> []
                  then [''JIRA routeEvent: Message is empty, not sending message''] else []) @
                 (if \<not> channels \<noteq> []
                  then [''JIRA routeEvent: No channels found, not sending message''] else []) \<rparr>))))))"

section \<open>The preference filter\<close>

text \<open>Modelled from the spec: \<^verbatim>\<open>jiraParseChannels\<close> (helpers/channelLookup) is not
  among the sources. Section 4.3: the flag of a category in a preference record, read by
  the category's name.\<close>

definition categoryFlag :: "string \<Rightarrow> JiraPreference \<Rightarrow> bool" where
  "categoryFlag check c =
     (if check = ''issueComment'' then issueComment c = Some True
      else if check = ''issueDeleted'' then issueDeleted c = Some True
      else if check = ''issueCreated'' then issueCreated c = Some True
      else if check = ''issueState'' then issueState c = Some True
      else if check = ''issueStatus'' then issueStatus c = Some True
      else False)"

text \<open>Modelled from the spec: \<^verbatim>\<open>jiraParseChannels\<close> (helpers/channelLookup) is not
  among the sources. Section 4.3: the flag of the issue's type (bug, task, epic, story,
  subtask), treated as true when the type is not one of them.\<close>

definition typeFlag :: "string \<Rightarrow> JiraPreference \<Rightarrow> bool" where
  "typeFlag issuetype c =
     (if issuetype = ''bug'' then bug c = Some True
      else if issuetype = ''task'' then task c = Some True
      else if issuetype = ''epic'' then epic c = Some True
      else if issuetype = ''story'' then story c = Some True
      else if issuetype = ''subtask'' then subtask c = Some True
      else True)"

text \<open>Modelled from the spec: \<^verbatim>\<open>jiraParseChannels\<close> (helpers/channelLookup) is not
  among the sources. Section 4.3: the candidates whose record has both the category flag
  and the issue-type flag enabled.\<close>

definition preferenceFilter :: "string \<Rightarrow> string \<Rightarrow> JiraPreference list \<Rightarrow> JiraPreference list" where
  "preferenceFilter check issuetype candidates =
     filter (\<lambda>c. categoryFlag check c \<and> typeFlag issuetype c) candidates"

section \<open>The approval handler (onJiraIssueEvent.ts)\<close>

text \<open>
  \<^verbatim>\<open>/\[atomist:sha:(.*)\]/gm.exec(text)\<close> and its three siblings. The dot matches no
  line terminator, and the group is greedy: after the opening text, the capture runs to
  the last closing bracket of the same line.
\<close>

definition isLineTerminator :: "char \<Rightarrow> bool" where
  "isLineTerminator c = (c = CHR 0x0A \<or> c = CHR 0x0D)"

definition captureToBracket :: "string \<Rightarrow> string option" where
  "captureToBracket s =
     (let line = takeWhile (\<lambda>c. \<not> isLineTerminator c) s in
      if CHR '']'' \<in> set line
      then Some (rev (tl (dropWhile (\<lambda>c. c \<noteq> CHR '']'') (rev line))))
      else None)"

text \<open>The leftmost position at which the expression matches; \<open>None\<close> is the
  \<^verbatim>\<open>null\<close> that \<^verbatim>\<open>exec\<close> returns when there is none.\<close>

fun execMarker :: "string \<Rightarrow> string \<Rightarrow> string option" where
  "execMarker opening [] =
     (if opening = [] then captureToBracket [] else None)"
| "execMarker opening (c # cs) =
     (case (if take (length opening) (c # cs) = opening
            then captureToBracket (drop (length opening) (c # cs)) else None) of
        Some g \<Rightarrow> Some g
      | None \<Rightarrow> execMarker opening cs)"

text \<open>\<^verbatim>\<open>exec(...)[1]\<close>: indexing the \<^verbatim>\<open>null\<close> of a failed match throws.\<close>

definition group1 :: "string option \<Rightarrow> error + string" where
  "group1 m = (case m of None \<Rightarrow> Inl TypeError | Some g \<Rightarrow> Inr g)"

record RepoRef =
  owner :: string
  repo :: string
  sha :: string
  branch :: string

text \<open>What a run of the handler that returned \<^verbatim>\<open>Success\<close> did: the lines it logged
  and the goal it set to success, if any.\<close>

record ApprovalResult =
  info :: "string list"
  goalUpdated :: "string option"

text \<open>
  The collaborators of the handler: the issue lookup
  \<^verbatim>\<open>getJiraDetails<Issue>(issue.self)\<close>, the graph query for the goals of an issue
  (the provider id of each), \<^verbatim>\<open>findSdmGoalOnCommit\<close> and \<^verbatim>\<open>updateGoal\<close>.
\<close>

record ApprovalCollaborators =
  getIssue :: "string \<Rightarrow> error + Issue"
  getGoalByJiraIssueId :: "string \<Rightarrow> error + string list"
  findSdmGoalOnCommit :: "RepoRef \<Rightarrow> string \<Rightarrow> error + string"
  updateGoal :: "string \<Rightarrow> error + unit"

definition isStateChangeName :: "string \<Rightarrow> bool" where
  "isStateChangeName t =
     (t = ''issue_generic'' \<or> t = ''issue_updated'' \<or> t = ''issue_assigned'')"

definition approveGoal ::
  "ApprovalCollaborators \<Rightarrow> JiraIssueEvent \<Rightarrow> RepoRef \<Rightarrow> string list \<Rightarrow> error + ApprovalResult" where
  "approveGoal co event repoRef statusLog =
     await (getGoalByJiraIssueId co (issue_id (issue event))) (\<lambda>sdmGoalData.
       case sdmGoalData of
         [] \<Rightarrow>
           Inr \<lparr> info = statusLog @
                   [''JIRA onJiraIssueEventApprovalHandler: No matching goal found for this issue, skipping...''],
                 goalUpdated = None \<rparr>
       | providerId # _ \<Rightarrow>
           await (findSdmGoalOnCommit co repoRef providerId) (\<lambda>sdmGoal.
           await (updateGoal co sdmGoal) (\<lambda>_.
             Inr \<lparr> info = statusLog, goalUpdated = Some sdmGoal \<rparr>)))"

definition onJiraIssueEventApprovalHandler ::
  "ApprovalCollaborators \<Rightarrow> JiraIssueEvent \<Rightarrow> error + ApprovalResult" where
  "onJiraIssueEventApprovalHandler co event =
     await (getIssue co (issue_self (issue event))) (\<lambda>issue.
     let descriptionText = (case fields_description issue of None \<Rightarrow> ''null'' | Some d \<Rightarrow> d) in
     await (group1 (execMarker ''[atomist:sha:'' descriptionText)) (\<lambda>sha.
     await (group1 (execMarker ''[atomist:owner:'' descriptionText)) (\<lambda>owner.
     await (group1 (execMarker ''[atomist:repo:'' descriptionText)) (\<lambda>repo.
     await (group1 (execMarker ''[atomist:branch:'' descriptionText)) (\<lambda>branch.
       if sha = [] \<or> owner = [] \<or> repo = [] \<or> branch = [] then
         Inr \<lparr> info =
                 [''JIRA onJiraIssueEventApprovalHandler: No enviornment data found on issue, skipping event...''],
               goalUpdated = None \<rparr>
       else if webhookEvent event \<noteq> ''jira:issue_updated'' then
         Inr \<lparr> info =
                 [''JIRA onJiraIssueEventApprovalHandler: Not searching for approval, wrong event type.''],
               goalUpdated = None \<rparr>
       else
         (case issue_event_type_name event of
            None \<Rightarrow> Inl TypeError
          | Some t \<Rightarrow>
              (case (if isStateChangeName t then changelog event else None) of
                 None \<Rightarrow>
                   Inr \<lparr> info =
                           [''JIRA onJiraIssueEventApprovalHandler: Not searching for approval, wrong event type.''],
                         goalUpdated = None \<rparr>
               | Some changelogItems \<Rightarrow>
                   (case filter (\<lambda>c. field c = ''status'') changelogItems of
                      [] \<Rightarrow> Inl TypeError
                    | s # _ \<Rightarrow>
                        if toString_item s = Some ''Approved'' then
                          approveGoal co event
                            \<lparr> owner = owner, repo = repo, sha = sha, branch = branch \<rparr>
                            [''JIRA onJiraIssueEventApprovalHandler: New status'']
                        else
                          Inr \<lparr> info = [''JIRA onJiraIssueEventApprovalHandler: New status''],
                                goalUpdated = None \<rparr>))))))))"

section \<open>Mapping keys (commands/shared.ts)\<close>

text \<open>The value of a property of a mapping payload: a string, or \<^verbatim>\<open>undefined\<close>.\<close>

datatype jsval = Undefined | Str string

text \<open>A payload as the object it is: its own properties in insertion order. A property
  that is absent reads as \<^verbatim>\<open>undefined\<close>, as one that holds \<^verbatim>\<open>undefined\<close> does.\<close>

type_synonym JiraMapping = "(string \<times> jsval) list"

definition propOf :: "JiraMapping \<Rightarrow> string \<Rightarrow> jsval" where
  "propOf payload k = (case map_of payload k of None \<Rightarrow> Undefined | Some v \<Rightarrow> v)"

text \<open>String concatenation turns \<^verbatim>\<open>undefined\<close> into the text "undefined".\<close>

definition toStr :: "jsval \<Rightarrow> string" where
  "toStr v = (case v of Undefined \<Rightarrow> ''undefined'' | Str s \<Rightarrow> s)"

text \<open>\<^verbatim>\<open>x || y\<close> on strings: the empty string is the only falsy one.\<close>

definition or_else :: "string \<Rightarrow> string \<Rightarrow> string" where
  "or_else x y = (if x \<noteq> [] then x else y)"

text \<open>\<^verbatim>\<open>buildJiraHashKey\<close>; \<open>objectHash\<close> is the digest function of the object-hash
  package. In \<^verbatim>\<open>"-" + payload.componentId || ""\<close> the sum binds tighter than the
  disjunction.\<close>

definition buildJiraHashKey :: "(JiraMapping \<Rightarrow> string) \<Rightarrow> string \<Rightarrow> JiraMapping \<Rightarrow> string" where
  "buildJiraHashKey objectHash workspaceId payload =
     workspaceId @
     or_else (''-'' @ toStr (propOf payload ''componentId'')) [] @
     or_else (''-'' @ toStr (propOf payload ''projectId'')) [] @
     or_else (''-'' @ toStr (propOf payload ''channel'')) [] @
     ''-'' @ objectHash payload"

section \<open>Example inputs\<close>

text \<open>A stored preference record that names its channel and nothing else.\<close>

definition example_prefs_partial :: JiraPreference where
  "example_prefs_partial =
     \<lparr> channel = ''c1'', issueComment = None, issueDeleted = None, issueCreated = None,
       issueState = None, issueStatus = None, bug = None, task = None, epic = None,
       story = None, subtask = None \<rparr>"

definition example_url :: string where
  "example_url = ''http://jira/rest/api/2/issue/10''"

text \<open>A transport that answers, with the cache switched on.\<close>

definition example_http :: "string JiraHttp" where
  "example_http =
     \<lparr> useCacheConfig = True,
       getJiraAuth = Inr ''Basic c2RtOnNkbQ=='',
       exchange = (\<lambda>u h. Inr ''issue PROJ-1'') \<rparr>"

definition example_http_down :: "string JiraHttp" where
  "example_http_down = example_http\<lparr>exchange := (\<lambda>u h. Inl (Failure ''503''))\<rparr>"

definition example_http_no_auth :: "string JiraHttp" where
  "example_http_no_auth = example_http\<lparr>getJiraAuth := Inl (Failure ''no credentials'')\<rparr>"

definition example_http_cache_off :: "string JiraHttp" where
  "example_http_cache_off = example_http\<lparr>useCacheConfig := False\<rparr>"

definition example_world :: "string JiraWorld" where
  "example_world = \<lparr> jiraCache = Map.empty, clock = 100, exchanges = [] \<rparr>"

definition example_world_cached :: "string JiraWorld" where
  "example_world_cached =
     \<lparr> jiraCache = [example_url \<mapsto> (''issue PROJ-1 (cached)'', 130)], clock = 100,
       exchanges = [] \<rparr>"

text \<open>A channel subscribed to everything, and one that has switched bugs off.\<close>

definition example_channel :: "string \<Rightarrow> bool \<Rightarrow> JiraPreference" where
  "example_channel name bugs =
     \<lparr> channel = name, issueComment = Some True, issueDeleted = Some True,
       issueCreated = Some True, issueState = Some True, issueStatus = Some True,
       bug = Some bugs, task = Some True, epic = Some True, story = Some True,
       subtask = Some True \<rparr>"

definition example_issue :: "string option \<Rightarrow> Issue" where
  "example_issue d =
     \<lparr> self_url = example_url, fields_summary = ''Crash on save'',
       fields_description = d, fields_issuetype_name = ''bug'' \<rparr>"

definition example_event ::
  "string \<Rightarrow> string option \<Rightarrow> string option \<Rightarrow> ChangelogItem list option \<Rightarrow> JiraIssueEvent" where
  "example_event w t c cl =
     \<lparr> webhookEvent = w, issue_event_type_name = t,
       issue = \<lparr> issue_id = ''10'', issue_key = ''PROJ-1'', issue_self = example_url \<rparr>,
       comment = c, changelog = cl, timestamp = ''1554321098765'' \<rparr>"

definition example_config :: JiraConfig where
  "example_config = \<lparr> url = ''http://jira'' \<rparr>"

text \<open>Collaborators that all resolve: the candidates are given, the preference filter is
  the one of section 4.3 for an issue of type bug, and each message helper answers for
  its own kind of event.\<close>

definition example_collaborators :: "JiraPreference list \<Rightarrow> Collaborators" where
  "example_collaborators candidates =
     \<lparr> buildSelfUrl = (\<lambda>i. ''http://jira/rest/api/2/issue/'' @ i),
       getIssueDetail = (\<lambda>u c t. Inr (example_issue None)),
       getTransitions = (\<lambda>u c t. Inr \<lparr> transitions = Some [] \<rparr>),
       slack_url = (\<lambda>u l. ''<'' @ u @ ''|'' @ l @ ''>''),
       jiraDetermineNotifyChannels = (\<lambda>e. Inr candidates),
       jiraParseChannels = (\<lambda>cs e k. Inr (preferenceFilter k ''bug'' cs)),
       prepareNewIssueMessage =
         (\<lambda>w i. Inr (if w = ''jira:issue_created'' then [Prepared ''created''] else [])),
       prepareIssueDeletedMessage =
         (\<lambda>e. Inr (if webhookEvent e = ''jira:issue_deleted'' then [Prepared ''deleted''] else [])),
       prepareStateChangeMessage =
         (\<lambda>e. Inr (if changelog e \<noteq> None then [Prepared ''changed''] else [])),
       prepareIssueCommentedMessage =
         (\<lambda>e i. Inr (if comment e \<noteq> None then [Prepared ''commented''] else [])),
       buildJiraFooter = (\<lambda>i. ''PROJ-1'') \<rparr>"

definition example_approval :: "string option \<Rightarrow> ApprovalCollaborators" where
  "example_approval d =
     \<lparr> getIssue = (\<lambda>u. Inr (example_issue d)),
       getGoalByJiraIssueId = (\<lambda>i. Inr [''provider'']),
       findSdmGoalOnCommit = (\<lambda>r p. Inr (owner r @ ''/'' @ repo r @ ''@'' @ sha r)),
       updateGoal = (\<lambda>g. Inr ()) \<rparr>"

definition example_approved_event :: JiraIssueEvent where
  "example_approved_event =
     example_event ''jira:issue_updated'' (Some ''issue_generic'') None
       (Some [\<lparr> field = ''status'', toString_item = Some ''Approved'' \<rparr>])"

section \<open>Preference defaults\<close>

text \<open>
  C1 (amended). Loading a stored record fills every absent flag with true, the
  issueState and issueStatus flags included; flags that are present are kept. Only when
  there is no record at all are issueState and issueStatus false, with every other flag
  true.
\<close>

theorem absent_preference_flags_default_true:
  "queryJiraChannelPrefs (Some p) ch =
     \<lparr> channel = channel p,
       issueComment = Some (case issueComment p of None \<Rightarrow> True | Some b \<Rightarrow> b),
       issueDeleted = Some (case issueDeleted p of None \<Rightarrow> True | Some b \<Rightarrow> b),
       issueCreated = Some (case issueCreated p of None \<Rightarrow> True | Some b \<Rightarrow> b),
       issueState = Some (case issueState p of None \<Rightarrow> True | Some b \<Rightarrow> b),
       issueStatus = Some (case issueStatus p of None \<Rightarrow> True | Some b \<Rightarrow> b),
       bug = Some (case bug p of None \<Rightarrow> True | Some b \<Rightarrow> b),
       task = Some (case task p of None \<Rightarrow> True | Some b \<Rightarrow> b),
       epic = Some (case epic p of None \<Rightarrow> True | Some b \<Rightarrow> b),
       story = Some (case story p of None \<Rightarrow> True | Some b \<Rightarrow> b),
       subtask = Some (case subtask p of None \<Rightarrow> True | Some b \<Rightarrow> b) \<rparr>
   \<and> queryJiraChannelPrefs None ch =
     \<lparr> channel = ch, issueComment = Some True, issueDeleted = Some True,
       issueCreated = Some True, issueState = Some False, issueStatus = Some False,
       bug = Some True, task = Some True, epic = Some True, story = Some True,
       subtask = Some True \<rparr>"
  by (simp add: queryJiraChannelPrefs_def mungeJiraPrefs_def a_default_def split: option.split)

text \<open>
  C1 as stated fails: for the stored record that only names its channel, the loaded
  issueState and issueStatus flags are true, not false.
\<close>

theorem absent_issueState_loaded_true:
  "issueState (queryJiraChannelPrefs (Some example_prefs_partial) ''c1'') = Some True
   \<and> issueStatus (queryJiraChannelPrefs (Some example_prefs_partial) ''c1'') = Some True
   \<and> issueState (queryJiraChannelPrefs (Some example_prefs_partial) ''c1'') \<noteq> Some False"
  by (simp add: queryJiraChannelPrefs_def mungeJiraPrefs_def a_default_def
      example_prefs_partial_def)

section \<open>The detail fetcher\<close>

text \<open>
  C8 (amended). When caching is in effect (configuration flag and cacheable flag) and an
  unexpired entry exists, the cached value is returned and nothing else happens. Otherwise
  the authenticator is asked first: if it fails, the wrapped error is thrown with no HTTP
  exchange at all and the cache untouched; if it yields a header, exactly one exchange is
  performed, a failed exchange throws the wrapped error and leaves the cache as it was,
  and a successful one returns the body and stores it with the given time to live exactly
  when the cacheable flag is set.
\<close>

theorem getJiraDetails_behaviour:
  "(useCacheConfig env \<and> cache \<and> cache_get (jiraCache w) (clock w) u = Some v \<longrightarrow>
      getJiraDetails env w u cache ttl = (Inr v, w))
   \<and> (\<not> (useCacheConfig env \<and> cache \<and> cache_get (jiraCache w) (clock w) u \<noteq> None) \<longrightarrow>
        (\<forall>e. getJiraAuth env = Inl e \<longrightarrow>
            getJiraDetails env w u cache ttl = (Inl (ErrorOf e), w))
      \<and> (\<forall>h e. getJiraAuth env = Inr h \<and> exchange env u h = Inl e \<longrightarrow>
            getJiraDetails env w u cache ttl =
              (Inl (ErrorOf e), w\<lparr>exchanges := exchanges w @ [u]\<rparr>))
      \<and> (\<forall>h b. getJiraAuth env = Inr h \<and> exchange env u h = Inr b \<longrightarrow>
            getJiraDetails env w u cache ttl =
              (Inr b, w\<lparr>exchanges := exchanges w @ [u],
                        jiraCache := if cache then cache_set (jiraCache w) (clock w) u b ttl
                                     else jiraCache w\<rparr>)))"
  by (auto simp: getJiraDetails_def Let_def split: option.splits sum.splits bool.splits)

theorem getJiraDetails_behaviour_witness:
  "cache_get (jiraCache example_world_cached) (clock example_world_cached) example_url
     = Some ''issue PROJ-1 (cached)''
   \<and> getJiraDetails example_http example_world_cached example_url True 30
     = (Inr ''issue PROJ-1 (cached)'', example_world_cached)
   \<and> cache_get (jiraCache example_world) (clock example_world) example_url = None
   \<and> getJiraDetails example_http_no_auth example_world example_url True 30
     = (Inl (ErrorOf (Failure ''no credentials'')), example_world)
   \<and> getJiraDetails example_http_down example_world example_url True 30
     = (Inl (ErrorOf (Failure ''503'')), example_world\<lparr>exchanges := [example_url]\<rparr>)
   \<and> fst (getJiraDetails example_http example_world example_url True 30) = Inr ''issue PROJ-1''
   \<and> exchanges (snd (getJiraDetails example_http example_world example_url True 30))
     = [example_url]
   \<and> jiraCache (snd (getJiraDetails example_http example_world example_url True 30)) example_url
     = Some (''issue PROJ-1'', 130)
   \<and> jiraCache (snd (getJiraDetails example_http example_world example_url False 30)) example_url
     = None"
  using
    getJiraDetails_behaviour [of example_http True example_world_cached example_url
      "''issue PROJ-1 (cached)''" 30]
    getJiraDetails_behaviour [of example_http_no_auth True example_world example_url _ 30]
    getJiraDetails_behaviour [of example_http_down True example_world example_url _ 30]
    getJiraDetails_behaviour [of example_http True example_world example_url _ 30]
    getJiraDetails_behaviour [of example_http False example_world example_url _ 30]
  by (simp add: example_http_def example_http_down_def example_http_no_auth_def
      example_world_def example_world_cached_def cache_get_def cache_set_def)

text \<open>
  C8 as stated fails: on a cache miss with an authenticator that rejects, no HTTP exchange
  is performed (the claim says exactly one), and the wrapped error is thrown.
\<close>

theorem getJiraDetails_no_exchange_without_auth:
  "cache_get (jiraCache example_world) (clock example_world) example_url = None
   \<and> fst (getJiraDetails example_http_no_auth example_world example_url True 30)
     = Inl (ErrorOf (Failure ''no credentials''))
   \<and> exchanges (snd (getJiraDetails example_http_no_auth example_world example_url True 30)) = []"
  by (simp add: getJiraDetails_def example_http_no_auth_def example_http_def
      example_world_def cache_get_def)

text \<open>
  C10. With the configuration value sdm.jira.useCache false, a call with the cacheable
  flag set never answers from the cache, and a successful fetch (the authenticator yields
  a header and the exchange a body) is still written into the cache under the URL with the
  given time to live.
\<close>

theorem cache_populated_when_config_off:
  assumes "\<not> useCacheConfig env"
    and "getJiraAuth env = Inr h"
    and "exchange env u h = Inr b"
  shows "getJiraDetails env w u True ttl =
           (Inr b, w\<lparr>exchanges := exchanges w @ [u],
                     jiraCache := cache_set (jiraCache w) (clock w) u b ttl\<rparr>)
         \<and> jiraCache (snd (getJiraDetails env w u True ttl)) u = Some (b, clock w + ttl)"
  using assms
  by (simp add: getJiraDetails_def Let_def cache_set_def split: option.splits)

theorem cache_populated_when_config_off_witness:
  "\<not> useCacheConfig example_http_cache_off
   \<and> getJiraAuth example_http_cache_off = Inr ''Basic c2RtOnNkbQ==''
   \<and> exchange example_http_cache_off example_url ''Basic c2RtOnNkbQ=='' = Inr ''issue PROJ-1''
   \<and> fst (getJiraDetails example_http_cache_off example_world_cached example_url True 30)
     = Inr ''issue PROJ-1''
   \<and> jiraCache (snd (getJiraDetails example_http_cache_off example_world_cached example_url True 30))
       example_url = Some (''issue PROJ-1'', 130)"
  using cache_populated_when_config_off [of example_http_cache_off "''Basic c2RtOnNkbQ==''"
      example_url "''issue PROJ-1''" example_world_cached 30]
  by (simp add: example_http_cache_off_def example_http_def example_world_cached_def
      cache_set_def)

section \<open>Facts about the router's parts\<close>

lemma uniqBy_seen_fresh:
  "set seen \<inter> f ` set (uniqBy_seen f seen xs) = {}"
proof (induction xs arbitrary: seen)
  case Nil
  show ?case by simp
next
  case (Cons y ys)
  show ?case
  proof (cases "f y \<in> set seen")
    case True
    with Cons [of seen] show ?thesis by simp
  next
    case False
    with Cons [of "f y # seen"] show ?thesis by auto
  qed
qed

lemma uniqBy_seen_distinct: "distinct (map f (uniqBy_seen f seen xs))"
proof (induction xs arbitrary: seen)
  case Nil
  show ?case by simp
next
  case (Cons y ys)
  have "f y \<notin> f ` set (uniqBy_seen f (f y # seen) ys)"
    using uniqBy_seen_fresh [of "f y # seen" f ys] by auto
  with Cons show ?case by simp
qed

lemma uniqBy_seen_keys:
  "f ` set (uniqBy_seen f seen xs) = f ` set xs - set seen"
proof (induction xs arbitrary: seen)
  case Nil
  show ?case by simp
next
  case (Cons y ys)
  show ?case
  proof (cases "f y \<in> set seen")
    case True
    with Cons [of seen] show ?thesis by auto
  next
    case False
    with Cons [of "f y # seen"] show ?thesis by auto
  qed
qed

lemma parseFor_fst:
  assumes "parseFor co newChannels event check = Inr c"
  shows "map fst c = [check]"
  using assms unfolding parseFor_def await_def
  by (cases "jiraParseChannels co newChannels event check") auto

text \<open>The four pushes of one pass, one after the other.\<close>

lemma collectChannels_parts:
  assumes "collectChannels co event cands = Inr cs"
  obtains c1 c2 c3 where
    "(if comment event \<noteq> None
      then parseFor co cands event ''issueComment'' else Inr []) = Inr c1"
    and "(case issue_event_type_name event of
            None \<Rightarrow> Inr []
          | Some t \<Rightarrow>
              if t = ''issue_generic'' \<or> t = ''issue_updated'' \<or> t = ''issue_assigned'' then
                (if t = ''issue_generic'' then parseFor co cands event ''issueStatus''
                 else if t = ''issue_assigned'' \<or> t = ''issue_updated''
                 then parseFor co cands event ''issueState''
                 else Inr [])
              else Inr []) = Inr c2"
    and "(if issue_event_type_name event = Some ''issue_created''
          then parseFor co cands event ''issueCreated'' else Inr []) = Inr c3"
    and "cs = c1 @ c2 @ c3 @
          (if webhookEvent event = ''jira:issue_deleted''
           then [(''issueDeleted'', filter (\<lambda>c. issueDeleted c = Some True) cands)]
           else [])"
proof -
  let ?p1 = "if comment event \<noteq> None
      then parseFor co cands event ''issueComment'' else Inr []"
  let ?p2 = "case issue_event_type_name event of
            None \<Rightarrow> Inr []
          | Some t \<Rightarrow>
              if t = ''issue_generic'' \<or> t = ''issue_updated'' \<or> t = ''issue_assigned'' then
                (if t = ''issue_generic'' then parseFor co cands event ''issueStatus''
                 else if t = ''issue_assigned'' \<or> t = ''issue_updated''
                 then parseFor co cands event ''issueState''
                 else Inr [])
              else Inr []"
  let ?p3 = "if issue_event_type_name event = Some ''issue_created''
          then parseFor co cands event ''issueCreated'' else Inr []"
  have eq: "collectChannels co event cands =
      await ?p1 (\<lambda>c1. await ?p2 (\<lambda>c2. await ?p3 (\<lambda>c3.
        Inr (c1 @ c2 @ c3 @
          (if webhookEvent event = ''jira:issue_deleted''
           then [(''issueDeleted'', filter (\<lambda>c. issueDeleted c = Some True) cands)]
           else [])))))"
    unfolding collectChannels_def ..
  obtain c1 where c1: "?p1 = Inr c1"
    using assms unfolding eq await_def by (cases ?p1) simp_all
  obtain c2 where c2: "?p2 = Inr c2"
    using assms unfolding eq await_def c1 by (cases ?p2) simp_all
  obtain c3 where c3: "?p3 = Inr c3"
    using assms unfolding eq await_def c1 c2 by (cases ?p3) simp_all
  have "cs = c1 @ c2 @ c3 @
          (if webhookEvent event = ''jira:issue_deleted''
           then [(''issueDeleted'', filter (\<lambda>c. issueDeleted c = Some True) cands)]
           else [])"
    using assms unfolding eq await_def c1 c2 c3 by simp
  with c1 c2 c3 show thesis by (rule that)
qed

text \<open>The categories of one pass, in the order their channels are pushed.\<close>

lemma collectChannels_categories:
  assumes "collectChannels co event cands = Inr cs"
  shows "map fst cs =
     (if comment event \<noteq> None then [''issueComment''] else []) @
     (case issue_event_type_name event of
        None \<Rightarrow> []
      | Some t \<Rightarrow>
          if t = ''issue_generic'' then [''issueStatus'']
          else if t = ''issue_updated'' \<or> t = ''issue_assigned'' then [''issueState'']
          else if t = ''issue_created'' then [''issueCreated'']
          else []) @
     (if webhookEvent event = ''jira:issue_deleted'' then [''issueDeleted''] else [])"
proof -
  from assms obtain c1 c2 c3 where
    p1: "(if comment event \<noteq> None
      then parseFor co cands event ''issueComment'' else Inr []) = Inr c1"
    and p2: "(case issue_event_type_name event of
            None \<Rightarrow> Inr []
          | Some t \<Rightarrow>
              if t = ''issue_generic'' \<or> t = ''issue_updated'' \<or> t = ''issue_assigned'' then
                (if t = ''issue_generic'' then parseFor co cands event ''issueStatus''
                 else if t = ''issue_assigned'' \<or> t = ''issue_updated''
                 then parseFor co cands event ''issueState''
                 else Inr [])
              else Inr []) = Inr c2"
    and p3: "(if issue_event_type_name event = Some ''issue_created''
          then parseFor co cands event ''issueCreated'' else Inr []) = Inr c3"
    and cs: "cs = c1 @ c2 @ c3 @
          (if webhookEvent event = ''jira:issue_deleted''
           then [(''issueDeleted'', filter (\<lambda>c. issueDeleted c = Some True) cands)]
           else [])"
    by (rule collectChannels_parts)
  have m1: "map fst c1 = (if comment event \<noteq> None then [''issueComment''] else [])"
  proof (cases "comment event \<noteq> None")
    case True
    with p1 have "parseFor co cands event ''issueComment'' = Inr c1" by simp
    from parseFor_fst [OF this] True show ?thesis by simp
  next
    case False
    with p1 show ?thesis by simp
  qed
  have m23: "map fst c2 @ map fst c3 =
     (case issue_event_type_name event of
        None \<Rightarrow> []
      | Some t \<Rightarrow>
          if t = ''issue_generic'' then [''issueStatus'']
          else if t = ''issue_updated'' \<or> t = ''issue_assigned'' then [''issueState'']
          else if t = ''issue_created'' then [''issueCreated'']
          else [])"
  proof (cases "issue_event_type_name event")
    case None
    with p2 p3 show ?thesis by simp
  next
    case (Some t)
    consider (generic) "t = ''issue_generic''"
      | (state) "t = ''issue_updated'' \<or> t = ''issue_assigned''"
      | (created) "t = ''issue_created''"
      | (other) "t \<noteq> ''issue_generic''" "t \<noteq> ''issue_updated''" "t \<noteq> ''issue_assigned''"
          "t \<noteq> ''issue_created''"
      by blast
    then show ?thesis
    proof cases
      case generic
      with p2 p3 Some have "parseFor co cands event ''issueStatus'' = Inr c2" and "c3 = []"
        by simp_all
      with parseFor_fst [of co cands event "''issueStatus''" c2] Some generic
      show ?thesis by simp
    next
      case state
      with p2 p3 Some have "parseFor co cands event ''issueState'' = Inr c2" and "c3 = []"
        by auto
      with parseFor_fst [of co cands event "''issueState''" c2] Some state
      show ?thesis by auto
    next
      case created
      with p2 p3 Some have "c2 = []" and "parseFor co cands event ''issueCreated'' = Inr c3"
        by simp_all
      with parseFor_fst [of co cands event "''issueCreated''" c3] Some created
      show ?thesis by simp
    next
      case other
      with p2 p3 Some show ?thesis by simp
    qed
  qed
  show ?thesis
    unfolding cs using m1 m23 by simp
qed


lemma routeEvent_sent:
  assumes "routeEvent co cfg event ne = Inr r" and "sent r = Some d"
  shows "addressed d = map channel (uniqBy (concat (map snd (contributions r))) channel)"
  using assms
  unfolding routeEvent_def await_def Let_def
  by (auto split: sum.splits option.splits if_splits)

lemma description_transitions:
  assumes "getJiraIssueDescription co i event ne cfg = Inr d"
  shows "issueTransitions d =
     (if webhookEvent event \<in> {''comment_created'', ''jira:issue_updated'', ''jira:issue_created''}
      then (case getTransitions co (buildSelfUrl co (issue_id (issue event)) @ ''/transitions'') True 5 of
              Inr tr \<Rightarrow> Some tr | Inl e \<Rightarrow> None)
      else None)"
  using assms
  unfolding getJiraIssueDescription_def await_def
  by (auto split: sum.splits if_splits)

section \<open>Categories of a routing pass\<close>

text \<open>
  C2 (amended). One routing pass collects channels under each category at most once and
  under at most one of issueCreated, issueStatus and issueState (status-change detection
  yields a single category); issueComment and issueDeleted are decided by tests of their
  own, so an event contributes under at most three categories, all among the five.
\<close>

theorem routing_pass_categories:
  assumes "collectChannels co event cands = Inr cs"
  shows "distinct (map fst cs)
     \<and> length (filter (\<lambda>k. k = ''issueCreated'' \<or> k = ''issueStatus'' \<or> k = ''issueState'')
          (map fst cs)) \<le> 1
     \<and> length cs \<le> 3
     \<and> set (map fst cs) \<subseteq>
          {''issueComment'', ''issueStatus'', ''issueState'', ''issueCreated'', ''issueDeleted''}"
proof -
  let ?c = "if comment event \<noteq> None then [''issueComment''] else []"
  let ?d = "if webhookEvent event = ''jira:issue_deleted'' then [''issueDeleted''] else []"
  let ?t = "case issue_event_type_name event of
        None \<Rightarrow> []
      | Some t \<Rightarrow>
          if t = ''issue_generic'' then [''issueStatus'']
          else if t = ''issue_updated'' \<or> t = ''issue_assigned'' then [''issueState'']
          else if t = ''issue_created'' then [''issueCreated'']
          else []"
  have eq: "map fst cs = ?c @ ?t @ ?d"
    using collectChannels_categories [OF assms] by simp
  have t: "?t = [] \<or> ?t = [''issueStatus''] \<or> ?t = [''issueState''] \<or> ?t = [''issueCreated'']"
    by (cases "issue_event_type_name event") simp_all
  have len: "length cs = length (?c @ ?t @ ?d)"
    using eq by (metis length_map)
  from t show ?thesis
    unfolding len eq by (elim disjE) simp_all
qed

theorem routing_pass_categories_witness:
  "collectChannels (example_collaborators [example_channel ''c1'' True])
     (example_event ''jira:issue_deleted'' (Some ''issue_generic'') (Some ''Obsolete'') None)
     [example_channel ''c1'' True]
   = Inr [(''issueComment'', [example_channel ''c1'' True]),
          (''issueStatus'', [example_channel ''c1'' True]),
          (''issueDeleted'', [example_channel ''c1'' True])]
   \<and> distinct [''issueComment'', ''issueStatus'', ''issueDeleted'']
   \<and> length [(''issueComment'', [example_channel ''c1'' True]),
          (''issueStatus'', [example_channel ''c1'' True]),
          (''issueDeleted'', [example_channel ''c1'' True])] \<le> 3"
  using routing_pass_categories
    [of "example_collaborators [example_channel ''c1'' True]"
        "example_event ''jira:issue_deleted'' (Some ''issue_generic'') (Some ''Obsolete'') None"
        "[example_channel ''c1'' True]"
        "[(''issueComment'', [example_channel ''c1'' True]),
          (''issueStatus'', [example_channel ''c1'' True]),
          (''issueDeleted'', [example_channel ''c1'' True])]"]
  by (simp add: collectChannels_def parseFor_def await_def example_collaborators_def
      example_event_def example_channel_def preferenceFilter_def categoryFlag_def typeFlag_def)

text \<open>
  C2 as stated fails: an issue_updated event that carries a comment contributes the same
  channel under issueComment and under issueState.
\<close>

theorem commented_update_two_categories:
  "collectChannels (example_collaborators [example_channel ''c1'' True])
     (example_event ''jira:issue_updated'' (Some ''issue_updated'') (Some ''Looks good'') None)
     [example_channel ''c1'' True]
   = Inr [(''issueComment'', [example_channel ''c1'' True]),
          (''issueState'', [example_channel ''c1'' True])]"
  by (simp add: collectChannels_def parseFor_def await_def example_collaborators_def
      example_event_def example_channel_def preferenceFilter_def categoryFlag_def typeFlag_def)

text \<open>
  C3 (amended). For every event with no comment, whose issue_event_type_name is none of
  issue_generic, issue_updated, issue_assigned and issue_created, and whose webhookEvent is
  not jira:issue_deleted, no category is assigned and the channel list stays empty; when
  moreover the webhookEvent is comment_created, jira:issue_updated or jira:issue_created
  and the collaborators answer, routeEvent logs that no channels were found and returns
  without sending anything and without raising an error.
\<close>

theorem unclassified_event_dropped:
  assumes "comment event = None"
    and "issue_event_type_name event \<notin>
           Some ` {''issue_generic'', ''issue_updated'', ''issue_assigned'', ''issue_created''}"
    and "webhookEvent event \<noteq> ''jira:issue_deleted''"
  shows "collectChannels co event cands = Inr []
     \<and> (webhookEvent event \<in> {''comment_created'', ''jira:issue_updated'', ''jira:issue_created''} \<longrightarrow>
        getIssueDetail co (buildSelfUrl co (issue_id (issue event)) @ ''?expand=changelog'') True 30
          = Inr i \<longrightarrow>
        getTransitions co (buildSelfUrl co (issue_id (issue event)) @ ''/transitions'') True 5
          = Inr tr \<longrightarrow>
        jiraDetermineNotifyChannels co event = Inr cands \<longrightarrow>
        prepareMessage co event i = Inr m \<longrightarrow>
        routeEvent co cfg event ne =
          Inr \<lparr> contributions = [], sent = None,
                logged =
                  (if m = [] then [''JIRA routeEvent: Message is empty, not sending message'']
                   else []) @
                  [''JIRA routeEvent: No channels found, not sending message''] \<rparr>)"
proof -
  have cc: "collectChannels co event cands = Inr []"
    using assms unfolding collectChannels_def parseFor_def await_def
    by (auto split: option.splits)
  have "routeEvent co cfg event ne =
          Inr \<lparr> contributions = [], sent = None,
                logged =
                  (if m = [] then [''JIRA routeEvent: Message is empty, not sending message'']
                   else []) @
                  [''JIRA routeEvent: No channels found, not sending message''] \<rparr>"
    if w: "webhookEvent event \<in> {''comment_created'', ''jira:issue_updated'', ''jira:issue_created''}"
      and i: "getIssueDetail co (buildSelfUrl co (issue_id (issue event)) @ ''?expand=changelog'') True 30
          = Inr i"
      and tr: "getTransitions co (buildSelfUrl co (issue_id (issue event)) @ ''/transitions'') True 5
          = Inr tr"
      and n: "jiraDetermineNotifyChannels co event = Inr cands"
      and m: "prepareMessage co event i = Inr m"
  proof -
    obtain d where d: "getJiraIssueDescription co i event ne cfg = Inr d"
      using w tr unfolding getJiraIssueDescription_def await_def by auto
    have "issueTransitions d = Some tr"
      using description_transitions [OF d] w tr by simp
    then show ?thesis
      unfolding routeEvent_def
      by (simp add: i d n cc m await_def transitionOptions_def)
  qed
  with cc show ?thesis by blast
qed

theorem unclassified_event_dropped_witness:
  "comment (example_event ''jira:issue_updated'' (Some ''issue_moved'') None None) = None
   \<and> collectChannels (example_collaborators [example_channel ''c1'' True])
       (example_event ''jira:issue_updated'' (Some ''issue_moved'') None None)
       [example_channel ''c1'' True] = Inr []
   \<and> routeEvent (example_collaborators [example_channel ''c1'' True]) example_config
       (example_event ''jira:issue_updated'' (Some ''issue_moved'') None None) True =
       Inr \<lparr> contributions = [], sent = None,
             logged = [''JIRA routeEvent: Message is empty, not sending message'',
                       ''JIRA routeEvent: No channels found, not sending message''] \<rparr>"
  using unclassified_event_dropped
    [of "example_event ''jira:issue_updated'' (Some ''issue_moved'') None None"
        "example_collaborators [example_channel ''c1'' True]"
        "[example_channel ''c1'' True]"
        "example_issue None" "\<lparr> transitions = Some [] \<rparr>" "[]" example_config True]
  by (simp add: example_event_def example_collaborators_def prepareMessage_def await_def)

text \<open>
  C3 as stated fails: the pair (jira:issue_updated, issue_commented) is not in the
  category table, yet an event of that pair that carries a comment is assigned the
  issueComment category and its channel is notified.
\<close>

theorem commented_pair_outside_table_notified:
  "(case routeEvent (example_collaborators [example_channel ''c1'' True]) example_config
           (example_event ''jira:issue_updated'' (Some ''issue_commented'') (Some ''Looks good'') None)
           True of
      Inl e \<Rightarrow> False
    | Inr r \<Rightarrow>
        map fst (contributions r) = [''issueComment'']
        \<and> map_option addressed (sent r) = Some [''c1''])"
  by (simp add: routeEvent_def getJiraIssueDescription_def collectChannels_def parseFor_def
      prepareMessage_def transitionOptions_def await_def uniqBy_def
      example_collaborators_def example_event_def example_channel_def example_issue_def
      example_config_def preferenceFilter_def categoryFlag_def typeFlag_def)

section \<open>Deleted issues\<close>




section \<open>Message identity\<close>

text \<open>
  C6. For every jira:issue_created event, the message options that
  getJiraIssueDescription returns (it returns once the transitions lookup has answered; a
  rejected lookup is passed on) have the identity jira/issue_created/ followed by the issue
  key, a slash and the event timestamp, and the post mode always when newEvent is true and
  update_only when it is false: a redelivered webhook has the same identity.
\<close>

theorem created_event_message_options:
  assumes "webhookEvent event = ''jira:issue_created''"
  shows "case getTransitions co (buildSelfUrl co (issue_id (issue event)) @ ''/transitions'') True 5 of
           Inl e \<Rightarrow> getJiraIssueDescription co issueDetail event newEvent jiraConfig = Inl e
         | Inr tr \<Rightarrow>
             (\<exists>d. getJiraIssueDescription co issueDetail event newEvent jiraConfig = Inr d
                \<and> msgOptions d = Some
                    \<lparr> msg_id = ''jira/issue_created/'' @ issue_key (issue event) @ ''/'' @
                              timestamp event,
                      post = (if newEvent then always else update_only) \<rparr>)"
  using assms
  unfolding getJiraIssueDescription_def await_def post_of_def
  by (simp split: sum.split)

theorem created_event_message_options_witness:
  "webhookEvent (example_event ''jira:issue_created'' (Some ''issue_created'') None None)
     = ''jira:issue_created''
   \<and> map_sum (\<lambda>e. e) msgOptions
       (getJiraIssueDescription (example_collaborators []) (example_issue None)
          (example_event ''jira:issue_created'' (Some ''issue_created'') None None) True
          example_config)
     = Inr (Some \<lparr> msg_id = ''jira/issue_created/PROJ-1/1554321098765'', post = always \<rparr>)
   \<and> map_sum (\<lambda>e. e) msgOptions
       (getJiraIssueDescription (example_collaborators []) (example_issue None)
          (example_event ''jira:issue_created'' (Some ''issue_created'') None None) False
          example_config)
     = Inr (Some \<lparr> msg_id = ''jira/issue_created/PROJ-1/1554321098765'', post = update_only \<rparr>)"
  using
    created_event_message_options
      [of "example_event ''jira:issue_created'' (Some ''issue_created'') None None"
          "example_collaborators []" "example_issue None" True example_config]
    created_event_message_options
      [of "example_event ''jira:issue_created'' (Some ''issue_created'') None None"
          "example_collaborators []" "example_issue None" False example_config]
  by (auto simp: example_event_def example_collaborators_def)

section \<open>Deduplicated dispatch\<close>

text \<open>
  C7. Whenever routeEvent dispatches a notification, the channel list handed to the
  chat-delivery collaborator holds each channel identifier at most once, and it holds
  every channel that was collected, however many rules or categories nominated it.
\<close>

theorem dispatch_channels_deduplicated:
  assumes "routeEvent co cfg event ne = Inr r"
    and "sent r = Some d"
  shows "distinct (addressed d)
     \<and> set (addressed d) = channel ` set (concat (map snd (contributions r)))"
proof -
  have a: "addressed d = map channel (uniqBy (concat (map snd (contributions r))) channel)"
    using assms by (rule routeEvent_sent)
  have "distinct (addressed d)"
    unfolding a uniqBy_def by (rule uniqBy_seen_distinct)
  moreover have "set (addressed d) = channel ` set (concat (map snd (contributions r)))"
    unfolding a uniqBy_def set_map uniqBy_seen_keys by simp
  ultimately show ?thesis ..
qed

theorem dispatch_channels_deduplicated_witness:
  "\<exists>r d. routeEvent
            (example_collaborators [example_channel ''c1'' True, example_channel ''c1'' True])
            example_config
            (example_event ''jira:issue_updated'' (Some ''issue_updated'') (Some ''Looks good'') None)
            True = Inr r
        \<and> sent r = Some d
        \<and> map channel (concat (map snd (contributions r))) = [''c1'', ''c1'', ''c1'', ''c1'']
        \<and> addressed d = [''c1'']
        \<and> distinct (addressed d)"
proof -
  have "\<exists>r d. routeEvent
            (example_collaborators [example_channel ''c1'' True, example_channel ''c1'' True])
            example_config
            (example_event ''jira:issue_updated'' (Some ''issue_updated'') (Some ''Looks good'') None)
            True = Inr r
        \<and> sent r = Some d
        \<and> map channel (concat (map snd (contributions r))) = [''c1'', ''c1'', ''c1'', ''c1'']
        \<and> addressed d = [''c1'']"
    by (simp add: routeEvent_def getJiraIssueDescription_def collectChannels_def parseFor_def
        prepareMessage_def transitionOptions_def await_def uniqBy_def Let_def
        example_collaborators_def example_event_def example_channel_def example_issue_def
        example_config_def preferenceFilter_def categoryFlag_def typeFlag_def)
  then show ?thesis
  proof (elim exE conjE)
    fix r d
    assume r: "routeEvent
            (example_collaborators [example_channel ''c1'' True, example_channel ''c1'' True])
            example_config
            (example_event ''jira:issue_updated'' (Some ''issue_updated'') (Some ''Looks good'') None)
            True = Inr r"
      and d: "sent r = Some d"
      and nominated:
        "map channel (concat (map snd (contributions r))) = [''c1'', ''c1'', ''c1'', ''c1'']"
      and handed: "addressed d = [''c1'']"
    have "distinct (addressed d)"
      by (rule conjunct1 [OF dispatch_channels_deduplicated [OF r d]])
    with r d nominated handed show ?thesis
      by (intro exI conjI)
  qed
qed

section \<open>The approval handler\<close>

text \<open>
  C9 (the code departs from the claim). For an issue whose description carries none of the
  environment markers, the handler does not log and return success: each
  \<^verbatim>\<open>exec(...)[1]\<close> indexes the null of a failed match, and the handler ends in a
  TypeError before its own check for missing values is reached.
\<close>

theorem approval_handler_throws_without_markers:
  "onJiraIssueEventApprovalHandler (example_approval (Some ''Please deploy to production''))
     example_approved_event = Inl TypeError"
  by (simp add: onJiraIssueEventApprovalHandler_def await_def group1_def example_approval_def
      example_approved_event_def example_event_def example_issue_def)

text \<open>
  Whenever any of the four markers is absent from the description and the issue lookup
  answers, the handler ends in a TypeError: the indexing of the failed match comes before
  the handler's own test for missing values.
\<close>

theorem approval_handler_missing_marker:
  assumes "getIssue co (issue_self (issue event)) = Inr i"
    and "execMarker ''[atomist:sha:'' (case fields_description i of None \<Rightarrow> ''null'' | Some d \<Rightarrow> d) = None
       \<or> execMarker ''[atomist:owner:'' (case fields_description i of None \<Rightarrow> ''null'' | Some d \<Rightarrow> d) = None
       \<or> execMarker ''[atomist:repo:'' (case fields_description i of None \<Rightarrow> ''null'' | Some d \<Rightarrow> d) = None
       \<or> execMarker ''[atomist:branch:'' (case fields_description i of None \<Rightarrow> ''null'' | Some d \<Rightarrow> d) = None"
  shows "onJiraIssueEventApprovalHandler co event = Inl TypeError"
  using assms
  unfolding onJiraIssueEventApprovalHandler_def await_def group1_def Let_def
  by (auto split: option.splits)

theorem approval_handler_missing_marker_witness:
  "getIssue (example_approval (Some ''[atomist:sha:4f2a] [atomist:owner:acme]''))
     (issue_self (issue example_approved_event))
     = Inr (example_issue (Some ''[atomist:sha:4f2a] [atomist:owner:acme]''))
   \<and> execMarker ''[atomist:repo:'' ''[atomist:sha:4f2a] [atomist:owner:acme]'' = None
   \<and> onJiraIssueEventApprovalHandler
       (example_approval (Some ''[atomist:sha:4f2a] [atomist:owner:acme]''))
       example_approved_event = Inl TypeError"
proof -
  have g: "getIssue (example_approval (Some ''[atomist:sha:4f2a] [atomist:owner:acme]''))
     (issue_self (issue example_approved_event))
     = Inr (example_issue (Some ''[atomist:sha:4f2a] [atomist:owner:acme]''))"
    by (simp add: example_approval_def)
  have m: "execMarker ''[atomist:repo:'' ''[atomist:sha:4f2a] [atomist:owner:acme]'' = None"
    by simp
  have "onJiraIssueEventApprovalHandler
       (example_approval (Some ''[atomist:sha:4f2a] [atomist:owner:acme]''))
       example_approved_event = Inl TypeError"
    by (rule approval_handler_missing_marker [OF g]) (simp add: example_issue_def)
  with g m show ?thesis by (intro conjI)
qed

section \<open>Events without transitions\<close>

text \<open>
  For an event whose webhookEvent is none of comment_created, jira:issue_updated and
  jira:issue_created (jira:issue_deleted among them), the description step assigns no
  transitions, and routeEvent never completes: it ends in the TypeError of reading a
  property of undefined as soon as its collaborators have answered, before any dispatch.
\<close>

theorem routeEvent_needs_transitions:
  assumes "webhookEvent event \<notin> {''comment_created'', ''jira:issue_updated'', ''jira:issue_created''}"
  shows "(\<forall>r. routeEvent co cfg event ne \<noteq> Inr r)
     \<and> (getIssueDetail co (buildSelfUrl co (issue_id (issue event)) @ ''?expand=changelog'') True 30
          = Inr i \<longrightarrow>
        jiraDetermineNotifyChannels co event = Inr cands \<longrightarrow>
        collectChannels co event cands = Inr cs \<longrightarrow>
        prepareMessage co event i = Inr m \<longrightarrow>
        routeEvent co cfg event ne = Inl TypeError)"
proof -
  have none: "issueTransitions d = None"
    if "getJiraIssueDescription co i' event ne cfg = Inr d" for i' d
    using description_transitions [OF that] assms by simp
  have d: "\<exists>d. getJiraIssueDescription co i' event ne cfg = Inr d" for i'
    using assms unfolding getJiraIssueDescription_def by simp
  have never: "routeEvent co cfg event ne \<noteq> Inr r" for r
  proof
    assume r: "routeEvent co cfg event ne = Inr r"
    show False
    proof (cases "getIssueDetail co (buildSelfUrl co (issue_id (issue event)) @ ''?expand=changelog'') True 30")
      case (Inl e)
      with r show False unfolding routeEvent_def await_def by simp
    next
      case i': (Inr i')
      from d obtain d' where d': "getJiraIssueDescription co i' event ne cfg = Inr d'" ..
      show False
      proof (cases "jiraDetermineNotifyChannels co event")
        case (Inl e)
        with r i' d' show False unfolding routeEvent_def await_def by simp
      next
        case n: (Inr n)
        show False
        proof (cases "collectChannels co event n")
          case (Inl e)
          with r i' d' n show False unfolding routeEvent_def await_def by simp
        next
          case c: (Inr c)
          show False
          proof (cases "prepareMessage co event i'")
            case (Inl e)
            with r i' d' n c show False unfolding routeEvent_def await_def by simp
          next
            case (Inr m')
            with r i' d' n c none [OF d'] show False
              unfolding routeEvent_def await_def transitionOptions_def by simp
          qed
        qed
      qed
    qed
  qed
  have "routeEvent co cfg event ne = Inl TypeError"
    if i: "getIssueDetail co (buildSelfUrl co (issue_id (issue event)) @ ''?expand=changelog'') True 30
          = Inr i"
      and n: "jiraDetermineNotifyChannels co event = Inr cands"
      and c: "collectChannels co event cands = Inr cs"
      and m: "prepareMessage co event i = Inr m"
  proof -
    from d obtain d' where d': "getJiraIssueDescription co i event ne cfg = Inr d'" ..
    from none [OF d'] show ?thesis
      unfolding routeEvent_def await_def transitionOptions_def
      by (simp add: i n c m d')
  qed
  with never show ?thesis by (intro conjI allI impI)
qed

theorem routeEvent_needs_transitions_witness:
  "webhookEvent (example_event ''jira:issue_deleted'' None None None)
     \<notin> {''comment_created'', ''jira:issue_updated'', ''jira:issue_created''}
   \<and> routeEvent (example_collaborators [example_channel ''c1'' True]) example_config
       (example_event ''jira:issue_deleted'' None None None) True = Inl TypeError
   \<and> routeEvent (example_collaborators [example_channel ''c1'' True]) example_config
       (example_event ''jira:worklog_updated'' None None None) True = Inl TypeError"
proof -
  have a: "webhookEvent (example_event ''jira:issue_deleted'' None None None)
     \<notin> {''comment_created'', ''jira:issue_updated'', ''jira:issue_created''}"
    by (simp add: example_event_def)
  have b: "webhookEvent (example_event ''jira:worklog_updated'' None None None)
     \<notin> {''comment_created'', ''jira:issue_updated'', ''jira:issue_created''}"
    by (simp add: example_event_def)
  have "routeEvent (example_collaborators [example_channel ''c1'' True]) example_config
       (example_event ''jira:issue_deleted'' None None None) True = Inl TypeError"
    using routeEvent_needs_transitions [OF a, of "example_collaborators [example_channel ''c1'' True]"
        example_config True "example_issue None" "[example_channel ''c1'' True]"
        "[(''issueDeleted'', [example_channel ''c1'' True])]" "[Prepared ''deleted'']"]
    by (simp add: example_collaborators_def example_event_def example_channel_def
        collectChannels_def prepareMessage_def await_def)
  moreover have "routeEvent (example_collaborators [example_channel ''c1'' True]) example_config
       (example_event ''jira:worklog_updated'' None None None) True = Inl TypeError"
    using routeEvent_needs_transitions [OF b, of "example_collaborators [example_channel ''c1'' True]"
        example_config True "example_issue None" "[example_channel ''c1'' True]"
        "[]" "[]"]
    by (simp add: example_collaborators_def example_event_def example_channel_def
        collectChannels_def prepareMessage_def await_def)
  ultimately show ?thesis using a by (intro conjI)
qed

section \<open>Mapping keys\<close>

text \<open>
  The text that buildJiraHashKey puts before the digest reads each of the three properties
  through string concatenation, where an absent property and one that holds undefined both
  give "undefined". Two payloads that agree on these three texts therefore get the same
  key exactly when the object-hash digest gives them the same value: for a payload with
  componentId absent and the same payload with componentId undefined, the digest alone
  tells the keys apart.
\<close>

theorem hash_key_rests_on_digest:
  assumes "toStr (propOf p ''componentId'') = toStr (propOf q ''componentId'')"
    and "toStr (propOf p ''projectId'') = toStr (propOf q ''projectId'')"
    and "toStr (propOf p ''channel'') = toStr (propOf q ''channel'')"
  shows "(buildJiraHashKey objectHash workspaceId p = buildJiraHashKey objectHash workspaceId q)
           = (objectHash p = objectHash q)"
  unfolding buildJiraHashKey_def assms
  by (simp only: same_append_eq)

theorem hash_key_rests_on_digest_witness:
  "toStr (propOf [(''projectId'', Str ''A''), (''channel'', Str ''c1'')] ''componentId'')
     = toStr (propOf [(''projectId'', Str ''A''), (''channel'', Str ''c1''),
                      (''componentId'', Undefined)] ''componentId'')
   \<and> buildJiraHashKey (\<lambda>p. ''0'') ''W1'' [(''projectId'', Str ''A''), (''channel'', Str ''c1'')]
     = ''W1-undefined-A-c1-0''
   \<and> buildJiraHashKey (\<lambda>p. ''0'') ''W1''
       [(''projectId'', Str ''A''), (''channel'', Str ''c1''), (''componentId'', Undefined)]
     = ''W1-undefined-A-c1-0''
   \<and> (buildJiraHashKey (\<lambda>p. ''0'') ''W1'' [(''projectId'', Str ''A''), (''channel'', Str ''c1'')]
      = buildJiraHashKey (\<lambda>p. ''0'') ''W1''
          [(''projectId'', Str ''A''), (''channel'', Str ''c1''), (''componentId'', Undefined)])"
  using hash_key_rests_on_digest
    [of "[(''projectId'', Str ''A''), (''channel'', Str ''c1'')]"
        "[(''projectId'', Str ''A''), (''channel'', Str ''c1''), (''componentId'', Undefined)]"
        "\<lambda>p. ''0''" "''W1''"]
  by (simp add: buildJiraHashKey_def propOf_def toStr_def or_else_def)

text \<open>
  A payload whose componentId is the empty string never shares a key with one whose
  componentId is absent or undefined, whatever the digests are: after the workspace id
  the first key continues with two dashes, the second with "-undefined".
\<close>

theorem hash_key_empty_component_apart:
  assumes "propOf p ''componentId'' = Str []"
    and "propOf q ''componentId'' = Undefined"
  shows "buildJiraHashKey objectHash workspaceId p \<noteq> buildJiraHashKey objectHash' workspaceId q"
  unfolding buildJiraHashKey_def assms
  by (simp add: or_else_def toStr_def)

theorem hash_key_empty_component_apart_witness:
  "propOf [(''projectId'', Str ''A''), (''channel'', Str ''c1''), (''componentId'', Str [])]
     ''componentId'' = Str []
   \<and> propOf [(''projectId'', Str ''A''), (''channel'', Str ''c1'')] ''componentId'' = Undefined
   \<and> buildJiraHashKey (\<lambda>p. ''0'') ''W1''
       [(''projectId'', Str ''A''), (''channel'', Str ''c1''), (''componentId'', Str [])]
     = ''W1--A-c1-0''
   \<and> buildJiraHashKey (\<lambda>p. ''0'') ''W1''
       [(''projectId'', Str ''A''), (''channel'', Str ''c1''), (''componentId'', Str [])]
     \<noteq> buildJiraHashKey (\<lambda>p. ''0'') ''W1'' [(''projectId'', Str ''A''), (''channel'', Str ''c1'')]"
  using hash_key_empty_component_apart
    [of "[(''projectId'', Str ''A''), (''channel'', Str ''c1''), (''componentId'', Str [])]"
        "[(''projectId'', Str ''A''), (''channel'', Str ''c1'')]"
        "\<lambda>p. ''0''" "''W1''" "\<lambda>p. ''0''"]
  by (simp add: buildJiraHashKey_def propOf_def toStr_def or_else_def)

end
